theory Spec2Isabelle
  imports Complex_Main "HOL-Library.Sublist"
begin

section \<open>Exceptions (adb\_scraper/exceptions.py and the Python built-ins the code meets)\<close>

text \<open>
  An exception is its class and its message. The classes are those of
  \<^verbatim>\<open>exceptions.py\<close>, the built-in classes the source raises or catches, the three
  \<^verbatim>\<open>requests.exceptions\<close> classes caught by \<^verbatim>\<open>_fetch_page\<close>, one class
  \<open>OtherException\<close> standing for any further subclass of \<^verbatim>\<open>Exception\<close>, and
  \<open>KeyboardInterrupt\<close>, which derives from \<^verbatim>\<open>BaseException\<close> only and so is
  caught by no \<^verbatim>\<open>except Exception\<close> clause.
\<close>

datatype exc_class =
    BaseException | KeyboardInterrupt | Exception
  | RuntimeError | ImportError | ValueError | TypeError | KeyError | OverflowError
  | ScraperError | NetworkError | ParseError | RateLimitError
  | CloudflareBlockError | ValidationError
  | RequestsTimeout | RequestsConnectionError | RequestsHTTPError
  | OtherException

record py_exception =
  kind :: exc_class
  message :: string

text \<open>The ancestors of a class, itself first (its method resolution order).\<close>

fun mro :: "exc_class \<Rightarrow> exc_class list" where
  "mro BaseException = [BaseException]"
| "mro KeyboardInterrupt = [KeyboardInterrupt, BaseException]"
| "mro Exception = [Exception, BaseException]"
| "mro ScraperError = [ScraperError, Exception, BaseException]"
| "mro NetworkError = [NetworkError, ScraperError, Exception, BaseException]"
| "mro ParseError = [ParseError, ScraperError, Exception, BaseException]"
| "mro RateLimitError = [RateLimitError, NetworkError, ScraperError, Exception, BaseException]"
| "mro CloudflareBlockError = [CloudflareBlockError, ScraperError, Exception, BaseException]"
| "mro ValidationError = [ValidationError, ScraperError, Exception, BaseException]"
| "mro c = [c, Exception, BaseException]"

definition issubclass :: "exc_class \<Rightarrow> exc_class \<Rightarrow> bool" where
  "issubclass c d = (d \<in> set (mro c))"

text \<open>\<^verbatim>\<open>except cls as e\<close> with one class, and with a tuple of classes.\<close>

definition isinstance :: "py_exception \<Rightarrow> exc_class \<Rightarrow> bool" where
  "isinstance e c = issubclass (kind e) c"

definition isinstance_any :: "py_exception \<Rightarrow> exc_class list \<Rightarrow> bool" where
  "isinstance_any e cs = list_ex (isinstance e) cs"

section \<open>Strings\<close>

text \<open>
  A \<open>char\<close> stands for a code point below 256. Python's \<^verbatim>\<open>sub in s\<close> on strings:
  \<open>sub\<close> occurs in \<open>s\<close> as a contiguous run.
\<close>

fun str_contains :: "string \<Rightarrow> string \<Rightarrow> bool" where
  "str_contains sub [] = (sub = [])"
| "str_contains sub (c # cs) = (prefix sub (c # cs) \<or> str_contains sub cs)"

text \<open>\<^verbatim>\<open>str.lower()\<close>: the upper-case letters of ASCII and Latin-1 move up by 32.\<close>

definition lower_char :: "char \<Rightarrow> char" where
  "lower_char c =
     (let n = (of_char c :: nat)
      in if (65 \<le> n \<and> n \<le> 90) \<or> (192 \<le> n \<and> n \<le> 222 \<and> n \<noteq> 215)
         then char_of (n + 32) else c)"

definition py_lower :: "string \<Rightarrow> string" where
  "py_lower s = map lower_char s"

text \<open>\<^verbatim>\<open>str.strip()\<close>: white space is removed at both ends.\<close>

definition is_space :: "char \<Rightarrow> bool" where
  "is_space c =
     (let n = (of_char c :: nat)
      in (9 \<le> n \<and> n \<le> 13) \<or> (28 \<le> n \<and> n \<le> 32) \<or> n = 133 \<or> n = 160)"

definition py_strip :: "string \<Rightarrow> string" where
  "py_strip s = rev (dropWhile is_space (rev (dropWhile is_space s)))"

text \<open>\<^verbatim>\<open>str(n)\<close> for an integer, as the f-strings of the source print it.\<close>

fun nat_str :: "nat \<Rightarrow> string" where
  "nat_str n =
     (if n < 10 then [''0123456789'' ! n] else nat_str (n div 10) @ [''0123456789'' ! (n mod 10)])"

declare nat_str.simps [simp del]

definition str_int :: "int \<Rightarrow> string" where
  "str_int i = (if i < 0 then CHR ''-'' # nat_str (nat (- i)) else nat_str (nat i))"

text \<open>
  \<^verbatim>\<open>repr(s)\<close> of a string, as error messages print it: single quotes, or double quotes
  when the string holds a single quote and no double quote; the quote and the backslash
  are escaped, tab, newline and carriage return are written \<^verbatim>\<open>\t\<close>, \<^verbatim>\<open>\n\<close>,
  \<^verbatim>\<open>\r\<close>, and the other characters that are not printable as \<^verbatim>\<open>\xhh\<close>.
\<close>

definition hex2 :: "nat \<Rightarrow> string" where
  "hex2 n = [''0123456789abcdef'' ! (n div 16), ''0123456789abcdef'' ! (n mod 16)]"

definition repr_char :: "char \<Rightarrow> char \<Rightarrow> string" where
  "repr_char q c =
     (let n = (of_char c :: nat)
      in if c = q \<or> c = CHR 0x5C then [CHR 0x5C, c]
         else if n = 9 then [CHR 0x5C, CHR ''t'']
         else if n = 10 then [CHR 0x5C, CHR ''n'']
         else if n = 13 then [CHR 0x5C, CHR ''r'']
         else if n < 32 \<or> n = 127 \<or> (128 \<le> n \<and> n \<le> 160) \<or> n = 173
         then [CHR 0x5C, CHR ''x''] @ hex2 n
         else [c])"

definition py_repr :: "string \<Rightarrow> string" where
  "py_repr s =
     (let q = (if CHR 0x27 \<in> set s \<and> CHR 0x22 \<notin> set s then CHR 0x22 else CHR 0x27)
      in [q] @ concat (map (repr_char q) s) @ [q])"

text \<open>
  \<^verbatim>\<open>int(s)\<close> on a string, as far as it can raise: \<open>None\<close> when it returns, else
  the \<^verbatim>\<open>ValueError\<close>. The white space \<^verbatim>\<open>int\<close> skips at both ends is that of C
  (tab to carriage return, and the blank) and the white space above ASCII; unlike
  \<^verbatim>\<open>str.strip\<close> it does not skip the separators 0x1C to 0x1F. Then come an optional
  sign and a run of decimal digits with single underscores between digits. A run of more
  than 4300 digits is refused (the default of \<^verbatim>\<open>sys.int_max_str_digits\<close>), and this is
  checked before what follows the run. The message shows at most 200 characters of the
  \<^verbatim>\<open>repr\<close>.
\<close>

definition is_digit :: "char \<Rightarrow> bool" where
  "is_digit c = (let n = (of_char c :: nat) in 48 \<le> n \<and> n \<le> 57)"

definition int_space :: "char \<Rightarrow> bool" where
  "int_space c =
     (let n = (of_char c :: nat)
      in (9 \<le> n \<and> n \<le> 13) \<or> n = 32 \<or> n = 133 \<or> n = 160)"

fun int_body :: "bool \<Rightarrow> string \<Rightarrow> bool" where
  "int_body prev [] = prev"
| "int_body prev (c # cs) =
     (if is_digit c then int_body True cs else (c = CHR ''_'' \<and> prev \<and> int_body False cs))"

definition invalid_literal :: "string \<Rightarrow> py_exception" where
  "invalid_literal s =
     \<lparr>kind = ValueError,
      message = ''invalid literal for int() with base 10: '' @ take 200 (py_repr s)\<rparr>"

definition too_many_digits :: "nat \<Rightarrow> py_exception" where
  "too_many_digits n =
     \<lparr>kind = ValueError,
      message = ''Exceeds the limit (4300 digits) for integer string conversion: value has '' @
                nat_str n @
                '' digits; use sys.set_int_max_str_digits() to increase the limit''\<rparr>"

definition int_error :: "string \<Rightarrow> py_exception option" where
  "int_error s =
     (let t = rev (dropWhile int_space (rev (dropWhile int_space s)));
          body = (case t of
                    [] \<Rightarrow> []
                  | c # r \<Rightarrow> if c = CHR ''+'' \<or> c = CHR ''-'' then r else t);
          run = takeWhile (\<lambda>c. is_digit c \<or> c = CHR ''_'') body;
          rest = dropWhile (\<lambda>c. is_digit c \<or> c = CHR ''_'') body
      in if \<not> int_body False run then Some (invalid_literal s)
         else if length (filter is_digit run) > 4300
         then Some (too_many_digits (length (filter is_digit run)))
         else if rest \<noteq> [] then Some (invalid_literal s)
         else None)"

section \<open>The fetch orchestrator (adb\_scraper/cloudflare.py, class HybridFetcher)\<close>

text \<open>
  The two backends talk to the network, so what a backend call gives is an input of the
  model: either the exception it raises or the pair \<^verbatim>\<open>(content, status_code)\<close>.
\<close>

type_synonym fetch_outcome = "py_exception + (string \<times> int)"

datatype backend = Cloudscraper | Playwright

text \<open>
  The instance state of \<^verbatim>\<open>HybridFetcher\<close>. \<open>playwright_created\<close> is
  \<^verbatim>\<open>self._playwright is not None\<close>; the sessions inside the two backends are part of
  the environment.
\<close>

record hybrid_fetcher =
  delay :: real
  use_playwright_fallback :: bool
  playwright_created :: bool
  cloudflare_detected :: bool
  consecutive_failures :: int

definition HybridFetcher_init :: "real \<Rightarrow> bool \<Rightarrow> hybrid_fetcher" where
  "HybridFetcher_init d fb =
     \<lparr>delay = d, use_playwright_fallback = fb, playwright_created = False,
      cloudflare_detected = False, consecutive_failures = 0\<rparr>"

definition blockers :: "string list" where
  "blockers = [''Checking your browser'', ''Just a moment'', ''cf-browser-verification'',
               ''challenge-platform'', ''Cloudflare Ray ID'']"

definition is_blocked :: "string \<Rightarrow> int \<Rightarrow> bool" where
  "is_blocked content status_code =
     (if status_code \<in> set [403, 503]
      then list_ex (\<lambda>blocker. str_contains blocker content) blockers
      else False)"

definition all_failed :: "string \<Rightarrow> py_exception" where
  "all_failed url = \<lparr>kind = RuntimeError, message = ''All fetch strategies failed for '' @ url\<rparr>"

text \<open>
  The first block of \<^verbatim>\<open>fetch\<close>: the Cloudscraper attempt. It gives \<open>Some r\<close> when
  \<^verbatim>\<open>fetch\<close> leaves there (a return, or an exception that \<^verbatim>\<open>except Exception\<close>
  does not catch) and \<open>None\<close> when control falls through to the Playwright block.
\<close>

definition fetch_cloudscraper ::
  "hybrid_fetcher \<Rightarrow> fetch_outcome \<Rightarrow> fetch_outcome option \<times> hybrid_fetcher \<times> backend list" where
  "fetch_cloudscraper self light =
     (if \<not> cloudflare_detected self then
        (case light of
           Inr (content, status) \<Rightarrow>
             if \<not> is_blocked content status
             then (Some (Inr (content, status)), self\<lparr>consecutive_failures := 0\<rparr>, [Cloudscraper])
             else (None, self\<lparr>cloudflare_detected := True\<rparr>, [Cloudscraper])
         | Inl e \<Rightarrow>
             if isinstance e Exception
             then (None, self\<lparr>consecutive_failures := consecutive_failures self + 1\<rparr>, [Cloudscraper])
             else (Some (Inl e), self, [Cloudscraper]))
      else (None, self, []))"

text \<open>The second block: the Playwright attempt, then the final \<^verbatim>\<open>raise RuntimeError\<close>.\<close>

definition fetch_playwright ::
  "hybrid_fetcher \<Rightarrow> string \<Rightarrow> fetch_outcome \<Rightarrow> fetch_outcome \<times> hybrid_fetcher \<times> backend list" where
  "fetch_playwright self url browser =
     (if use_playwright_fallback self then
        (let self' = self\<lparr>playwright_created := True\<rparr> in
         case browser of
           Inr (content, status) \<Rightarrow>
             if \<not> is_blocked content status
             then (Inr (content, status), self', [Playwright])
             else (Inl (all_failed url), self', [Playwright])
         | Inl e \<Rightarrow>
             if isinstance e ImportError then (Inl (all_failed url), self', [Playwright])
             else if isinstance e Exception then (Inl (all_failed url), self', [Playwright])
             else (Inl e, self', [Playwright]))
      else (Inl (all_failed url), self, []))"

text \<open>
  \<^verbatim>\<open>HybridFetcher.fetch\<close>: the result (an exception or the page), the instance after
  the call, and the backends invoked during the call, in order.
\<close>

definition fetch ::
  "hybrid_fetcher \<Rightarrow> string \<Rightarrow> fetch_outcome \<Rightarrow> fetch_outcome \<Rightarrow>
   fetch_outcome \<times> hybrid_fetcher \<times> backend list" where
  "fetch self url light browser =
     (case fetch_cloudscraper self light of
        (Some r, self1, tr1) \<Rightarrow> (r, self1, tr1)
      | (None, self1, tr1) \<Rightarrow>
          (case fetch_playwright self1 url browser of
             (r, self2, tr2) \<Rightarrow> (r, self2, tr1 @ tr2)))"

text \<open>
  A sequence of \<^verbatim>\<open>fetch\<close> calls on one instance. A call is its URL and what each
  backend would answer during it. The run gives, per call, the result, the instance after
  it and the backends invoked.
\<close>

type_synonym fetch_call = "string \<times> fetch_outcome \<times> fetch_outcome"

fun fetch_run ::
  "hybrid_fetcher \<Rightarrow> fetch_call list \<Rightarrow> (fetch_outcome \<times> hybrid_fetcher \<times> backend list) list" where
  "fetch_run self [] = []"
| "fetch_run self ((url, light, browser) # calls) =
     (case fetch self url light browser of
        (r, self', tr) \<Rightarrow> (r, self', tr) # fetch_run self' calls)"

section \<open>The backoff retrier (adb\_scraper/utils.py, retry\_with\_backoff)\<close>

text \<open>
  The arguments of the decorator. \<open>backoff_max_delay\<close> is its \<^verbatim>\<open>max_delay\<close>
  argument (the name \<open>max_delay\<close> is the rate limiter's field below). \<open>on_retry\<close> is
  the optional callback: \<open>None\<close> when none is given, else the function that says, for
  the failure and the attempt index it is called with, whether the callback returns
  (\<open>None\<close>) or raises. The numeric arguments are finite floats, as annotated. Floats
  are modelled as real numbers: rounding is not modelled, overflow is.
\<close>

record retry_args =
  max_retries :: int
  base_delay :: real
  backoff_max_delay :: real
  exponential_base :: real
  jitter :: bool
  exceptions :: "exc_class list"
  on_retry :: "(py_exception \<Rightarrow> nat \<Rightarrow> py_exception option) option"

definition retry_defaults :: retry_args where
  "retry_defaults =
     \<lparr>max_retries = 3, base_delay = 1, backoff_max_delay = 60, exponential_base = 2,
      jitter = True, exceptions = [Exception], on_retry = None\<rparr>"

text \<open>
  A float operation with exact result \<open>x\<close> overflows when \<open>x\<close> rounds beyond the
  largest float, that is from \<open>2 ^ 1024 - 2 ^ 970\<close> on in absolute value.
  \<^verbatim>\<open>exponential_base ** attempt\<close>, a float to the power of an int, then raises
  \<^verbatim>\<open>OverflowError\<close> (the message is that of Linux); a product of floats gives an
  infinity instead and raises nothing.
\<close>

definition float_overflow :: "real \<Rightarrow> bool" where
  "float_overflow x = (2 ^ 1024 - 2 ^ 970 \<le> \<bar>x\<bar>)"

definition float_pow :: "real \<Rightarrow> nat \<Rightarrow> py_exception + real" where
  "float_pow b n =
     (if float_overflow (b ^ n)
      then Inl \<lparr>kind = OverflowError, message = ''(34, 'Numerical result out of range')''\<rparr>
      else Inr (b ^ n))"

text \<open>
  \<^verbatim>\<open>time.sleep\<close> of CPython, called with a float: the duration is converted to a
  signed 64-bit number of nanoseconds, with \<^verbatim>\<open>OverflowError\<close> when it does not fit
  (the message is that of CPython 3.11), and a negative duration is then refused with
  \<^verbatim>\<open>ValueError\<close>. \<open>None\<close> stands for returning.
\<close>

definition time_sleep :: "real \<Rightarrow> py_exception option" where
  "time_sleep secs =
     (if secs * 10 ^ 9 < - (2 ^ 63) \<or> 2 ^ 63 \<le> secs * 10 ^ 9
      then Some \<lparr>kind = OverflowError,
                 message = ''timestamp out of range for platform time_t''\<rparr>
      else if secs < 0
      then Some \<lparr>kind = ValueError, message = ''sleep length must be non-negative''\<rparr>
      else None)"

text \<open>
  What the wrapper does to its surroundings, in order: a call of the wrapped function, a
  call of the \<^verbatim>\<open>on_retry\<close> callback with its two arguments, a call of
  \<^verbatim>\<open>time.sleep\<close> with its duration.
\<close>

datatype retry_event = Invoke | OnRetry py_exception nat | Sleep real

text \<open>Line 91: the delay of exponential backoff, before jitter.\<close>

definition backoff_delay :: "retry_args \<Rightarrow> nat \<Rightarrow> py_exception + real" where
  "backoff_delay p attempt =
     (case float_pow (exponential_base p) attempt of
        Inl oe \<Rightarrow> Inl oe
      | Inr pw \<Rightarrow> Inr (min (base_delay p * pw) (backoff_max_delay p)))"

text \<open>Lines 94-95, with \<open>r\<close> the value of \<^verbatim>\<open>random.random()\<close>.\<close>

definition jittered :: "retry_args \<Rightarrow> real \<Rightarrow> real \<Rightarrow> real" where
  "jittered p d r = (if jitter p then d * (0.5 + r) else d)"

text \<open>
  Lines 90-105, what the \<^verbatim>\<open>except\<close> block does between two attempts, for the caught
  exception \<open>e\<close>: it computes the delay, calls the callback if there is one, and sleeps.
  \<open>slp\<close> is the sleep function, \<open>time_sleep\<close> in the program. The result is the
  exception that leaves the block, if any, and the calls made.
\<close>

definition pause ::
  "retry_args \<Rightarrow> (real \<Rightarrow> py_exception option) \<Rightarrow> py_exception \<Rightarrow> nat \<Rightarrow> real \<Rightarrow>
   py_exception option \<times> retry_event list" where
  "pause p slp e attempt r =
     (case backoff_delay p attempt of
        Inl oe \<Rightarrow> (Some oe, [])
      | Inr d0 \<Rightarrow>
          (case on_retry p of
             None \<Rightarrow> (slp (jittered p d0 r), [Sleep (jittered p d0 r)])
           | Some callback \<Rightarrow>
               (case callback e attempt of
                  Some ce \<Rightarrow> (Some ce, [OnRetry e attempt])
                | None \<Rightarrow>
                    (slp (jittered p d0 r), [OnRetry e attempt, Sleep (jittered p d0 r)]))))"

text \<open>
  The \<^verbatim>\<open>for attempt in range(max_retries + 1)\<close> loop of \<^verbatim>\<open>wrapper\<close>, by recursion
  on the number \<open>n\<close> of iterations left. The wrapped function works on a state \<open>'s\<close>
  and gives an exception or a value; \<open>rnd attempt\<close> is the value \<^verbatim>\<open>random.random()\<close>
  gives at that attempt. An exception raised inside the \<^verbatim>\<open>except\<close> block leaves the
  wrapper. The log calls are left out: they format the exception, the delay and the
  \<^verbatim>\<open>__name__\<close> of the wrapped function, which a function has. When the range is used up the source runs \<^verbatim>\<open>raise last_exception\<close>, which
  with \<^verbatim>\<open>None\<close> is a \<^verbatim>\<open>TypeError\<close>.
\<close>

definition raise_None :: py_exception where
  "raise_None = \<lparr>kind = TypeError, message = ''exceptions must derive from BaseException''\<rparr>"

fun wrapper_loop ::
  "retry_args \<Rightarrow> (real \<Rightarrow> py_exception option) \<Rightarrow> ('s \<Rightarrow> (py_exception + 'a) \<times> 's) \<Rightarrow>
   (nat \<Rightarrow> real) \<Rightarrow> nat \<Rightarrow> nat \<Rightarrow> py_exception option \<Rightarrow> 's \<Rightarrow>
   (py_exception + 'a) \<times> 's \<times> retry_event list" where
  "wrapper_loop p slp func rnd 0 attempt last_exception s =
     (case last_exception of
        None \<Rightarrow> (Inl raise_None, s, [])
      | Some e \<Rightarrow> (Inl e, s, []))"
| "wrapper_loop p slp func rnd (Suc n) attempt last_exception s =
     (case func s of
        (Inr v, s') \<Rightarrow> (Inr v, s', [Invoke])
      | (Inl e, s') \<Rightarrow>
          if \<not> isinstance_any e (exceptions p) then (Inl e, s', [Invoke])
          else if int attempt = max_retries p then (Inl e, s', [Invoke])
          else
            (case pause p slp e attempt (rnd attempt) of
               (Some pe, evs) \<Rightarrow> (Inl pe, s', [Invoke] @ evs)
             | (None, evs) \<Rightarrow>
                 (case wrapper_loop p slp func rnd n (Suc attempt) (Some e) s' of
                    (r, s'', tr) \<Rightarrow> (r, s'', [Invoke] @ evs @ tr))))"

definition wrapper ::
  "retry_args \<Rightarrow> (real \<Rightarrow> py_exception option) \<Rightarrow> ('s \<Rightarrow> (py_exception + 'a) \<times> 's) \<Rightarrow>
   (nat \<Rightarrow> real) \<Rightarrow> 's \<Rightarrow> (py_exception + 'a) \<times> 's \<times> retry_event list" where
  "wrapper p slp func rnd s = wrapper_loop p slp func rnd (nat (max_retries p + 1)) 0 None s"




section \<open>The pacer (adb\_scraper/utils.py, class RateLimiter)\<close>

record rate_limiter =
  min_delay :: real
  max_delay :: real
  last_request_time :: "real option"


text \<open>
  \<^verbatim>\<open>wait\<close>. The clock and the random generator are inputs: \<open>now\<close> is what
  \<^verbatim>\<open>time.time()\<close> gives on line 138, \<open>d\<close> what
  \<^verbatim>\<open>random.uniform(self.min_delay, self.max_delay)\<close> gives, \<open>now'\<close> what
  \<^verbatim>\<open>time.time()\<close> gives on line 146. The first result is the duration passed to
  \<^verbatim>\<open>time.sleep\<close>, or \<open>None\<close> when \<^verbatim>\<open>time.sleep\<close> is not called.
\<close>

definition wait :: "rate_limiter \<Rightarrow> real \<Rightarrow> real \<Rightarrow> real \<Rightarrow> real option \<times> rate_limiter" where
  "wait self now d now' =
     (let slept =
        (case last_request_time self of
           None \<Rightarrow> None
         | Some prev \<Rightarrow>
             (let elapsed = now - prev
              in if elapsed < d then Some (d - elapsed) else None))
      in (slept, self\<lparr>last_request_time := Some now'\<rparr>))"



section \<open>Records of the data model (adb\_scraper/models.py)\<close>

record project_listing =
  project_id :: string
  title :: string
  detail_url :: string
  country :: "string option"
  sector :: "string option"
  status :: "string option"
  approval_date :: "string option"
  project_type :: "string option"
  region :: "string option"

record project_detail = project_listing +
  countries :: "string list"
  sectors :: "string list"
  themes :: "string list"
  signing_date :: "string option"
  effectivity_date :: "string option"
  closing_date :: "string option"
  financing_amount :: "string option"
  adb_financing :: "string option"
  cofinancing :: "string option"
  borrower :: "string option"
  executing_agency :: "string option"
  implementing_agencies :: "string list"
  description :: "string option"
  objectives :: "string option"
  expected_outcomes :: "string option"
  documents :: "(string \<times> string) list list"
  related_links :: "string list"
  last_updated :: "string option"
  scraped_at :: "string option"

text \<open>
  \<^verbatim>\<open>ProjectDetail.from_listing\<close>, with the \<^verbatim>\<open>__post_init__\<close> of
  \<^verbatim>\<open>ProjectDetail\<close> (it strips \<^verbatim>\<open>title\<close>, \<^verbatim>\<open>country\<close>, \<^verbatim>\<open>sector\<close>,
  \<^verbatim>\<open>status\<close> and \<^verbatim>\<open>description\<close>). \<open>now\<close> is what
  \<^verbatim>\<open>datetime.now().isoformat()\<close> gives.
\<close>

definition from_listing :: "string \<Rightarrow> project_listing \<Rightarrow> project_detail" where
  "from_listing now listing =
     \<lparr>project_id = project_id listing,
      title = py_strip (title listing),
      detail_url = detail_url listing,
      country = map_option py_strip (country listing),
      sector = map_option py_strip (sector listing),
      status = map_option py_strip (status listing),
      approval_date = approval_date listing,
      project_type = project_type listing,
      region = region listing,
      countries = [], sectors = [], themes = [],
      signing_date = None, effectivity_date = None, closing_date = None,
      financing_amount = None, adb_financing = None, cofinancing = None,
      borrower = None, executing_agency = None, implementing_agencies = [],
      description = None, objectives = None, expected_outcomes = None,
      documents = [], related_links = [],
      last_updated = None, scraped_at = Some now\<rparr>"

text \<open>What \<^verbatim>\<open>scrape_projects\<close> yields: \<^verbatim>\<open>Union[ProjectListing, ProjectDetail]\<close>.\<close>

datatype project = Listing project_listing | Detail project_detail

section \<open>The crawl controller (adb\_scraper/scraper.py, class ADBProjectScraper)\<close>

subsection \<open>Responses and the second block classifier\<close>

text \<open>
  A \<^verbatim>\<open>requests.Response\<close>. \<open>headers\<close> is a \<^verbatim>\<open>CaseInsensitiveDict\<close>: the map is
  keyed by the lower-cased header name. \<open>body_text\<close> is \<^verbatim>\<open>response.text\<close>,
  \<open>reason\<close> and \<open>final_url\<close> are \<^verbatim>\<open>response.reason\<close> and
  \<^verbatim>\<open>response.url\<close>, which \<^verbatim>\<open>raise_for_status\<close> prints.
\<close>

record response =
  status_code :: int
  headers :: "string \<rightharpoonup> string"
  body_text :: string
  reason :: string
  final_url :: string

definition is_cloudflare_block :: "response \<Rightarrow> bool" where
  "is_cloudflare_block r =
     (let cloudflare_indicators =
        [headers r ''cf-ray'' \<noteq> None,
         str_contains ''cloudflare''
           (py_lower (case headers r ''server'' of None \<Rightarrow> [] | Some v \<Rightarrow> v)),
         str_contains ''Checking your browser'' (take 1000 (body_text r)),
         str_contains ''cf-browser-verification'' (take 1000 (body_text r)),
         str_contains ''Just a moment...'' (take 500 (body_text r))]
      in list_ex (\<lambda>b. b) cloudflare_indicators \<and> status_code r \<in> set [403, 503])"

text \<open>
  \<^verbatim>\<open>Response.raise_for_status\<close> of the requests library: an \<^verbatim>\<open>HTTPError\<close> for a
  status from 400 to 599.
\<close>

definition raise_for_status :: "response \<Rightarrow> py_exception option" where
  "raise_for_status r =
     (if 400 \<le> status_code r \<and> status_code r < 500
      then Some \<lparr>kind = RequestsHTTPError,
                 message = str_int (status_code r) @ '' Client Error: '' @ reason r @
                           '' for url: '' @ final_url r\<rparr>
      else if 500 \<le> status_code r \<and> status_code r < 600
      then Some \<lparr>kind = RequestsHTTPError,
                 message = str_int (status_code r) @ '' Server Error: '' @ reason r @
                           '' for url: '' @ final_url r\<rparr>
      else None)"

subsection \<open>The scraper instance and its surroundings\<close>

text \<open>
  \<^verbatim>\<open>self.stats\<close> is a dictionary from counter names to integers.
\<close>

type_synonym stats_dict = "string \<rightharpoonup> int"

text \<open>
  The instance. \<open>has_fetcher\<close> is \<^verbatim>\<open>self._fetcher is not None\<close>; \<open>page_fetches\<close>
  counts the calls of \<^verbatim>\<open>_fetch_page\<close> made so far and only serves to ask the
  environment for the answers of the next call. The session, the rate limiter and the other
  settings act on the network and the clock only.
\<close>

record adb_scraper =
  timeout :: int
  has_fetcher :: bool
  stats :: stats_dict
  page_fetches :: nat

text \<open>
  The environment of a crawl. For call number \<open>n\<close> of \<^verbatim>\<open>_fetch_page\<close> on a URL:
  \<open>fetcher_answer\<close> is what \<^verbatim>\<open>self._fetcher.fetch\<close> gives if called,
  \<open>session_answer\<close> what \<^verbatim>\<open>self.session.get\<close> gives if called, \<open>now_isoformat\<close>
  the time stamp \<^verbatim>\<open>datetime.now().isoformat()\<close>. \<open>parse_listing html url\<close> is
  \<^verbatim>\<open>ListingPageParser(html, url)\<close> with its \<^verbatim>\<open>parse()\<close> and
  \<^verbatim>\<open>get_next_page_url()\<close>; \<open>parse_detail html url project\<close> is
  \<^verbatim>\<open>DetailPageParser(html, url, project).parse()\<close>; both rest on BeautifulSoup.
  \<open>random_random\<close> gives the values of \<^verbatim>\<open>random.random()\<close>.
\<close>

record environment =
  fetcher_answer :: "nat \<Rightarrow> string \<Rightarrow> fetch_outcome"
  session_answer :: "nat \<Rightarrow> string \<Rightarrow> py_exception + response"
  now_isoformat :: "nat \<Rightarrow> string"
  parse_listing :: "string \<Rightarrow> string \<Rightarrow> py_exception + (project_listing list \<times> string option)"
  parse_detail :: "string \<Rightarrow> string \<Rightarrow> project_listing \<Rightarrow> py_exception + project_detail"
  random_random :: "nat \<Rightarrow> real"

definition init_stats :: stats_dict where
  "init_stats =
     [''pages_scraped'' \<mapsto> 0, ''projects_found'' \<mapsto> 0, ''details_fetched'' \<mapsto> 0,
      ''errors'' \<mapsto> 0, ''cloudflare_bypassed'' \<mapsto> 0]"

text \<open>
  \<^verbatim>\<open>__init__\<close>: \<^verbatim>\<open>create_fetcher\<close> raises \<^verbatim>\<open>ValueError\<close> for an unknown strategy,
  and then \<^verbatim>\<open>self._fetcher\<close> stays \<^verbatim>\<open>None\<close>.
\<close>

definition ADBProjectScraper_init :: "int \<Rightarrow> bool \<Rightarrow> string \<Rightarrow> adb_scraper" where
  "ADBProjectScraper_init tmo bypass_cloudflare fetch_strategy =
     \<lparr>timeout = tmo,
      has_fetcher = (bypass_cloudflare \<and>
                     fetch_strategy \<in> set [''cloudscraper'', ''playwright'', ''hybrid'']),
      stats = init_stats,
      page_fetches = 0\<rparr>"

definition get_stats :: "adb_scraper \<Rightarrow> stats_dict" where
  "get_stats self = stats self"

definition reset_stats :: "adb_scraper \<Rightarrow> adb_scraper" where
  "reset_stats self =
     self\<lparr>stats := [''pages_scraped'' \<mapsto> 0, ''projects_found'' \<mapsto> 0,
                     ''details_fetched'' \<mapsto> 0, ''errors'' \<mapsto> 0]\<rparr>"

text \<open>\<^verbatim>\<open>self.stats[k] += n\<close>: a \<^verbatim>\<open>KeyError\<close> when the key is missing.\<close>

definition stat_add :: "stats_dict \<Rightarrow> string \<Rightarrow> int \<Rightarrow> py_exception + stats_dict" where
  "stat_add d k n =
     (case d k of
        None \<Rightarrow> Inl \<lparr>kind = KeyError, message = k\<rparr>
      | Some v \<Rightarrow> Inr (d(k \<mapsto> v + n)))"

subsection \<open>Fetching one page: \_fetch\_page and \_fetch\_with\_retry\<close>

text \<open>
  The body of the first \<^verbatim>\<open>try\<close> of \<^verbatim>\<open>_fetch_page\<close> (lines 170-179), given what
  \<^verbatim>\<open>self._fetcher.fetch\<close> answers.
\<close>

definition bypass_body :: "adb_scraper \<Rightarrow> fetch_outcome \<Rightarrow> (py_exception + string) \<times> adb_scraper" where
  "bypass_body self answer =
     (case answer of
        Inl e \<Rightarrow> (Inl e, self)
      | Inr (content, st) \<Rightarrow>
          if st = 429
          then (Inl \<lparr>kind = RateLimitError, message = ''Rate limited by server''\<rparr>, self)
          else if st \<ge> 400
          then (Inl \<lparr>kind = NetworkError, message = ''HTTP '' @ str_int st\<rparr>, self)
          else
            (case stat_add (stats self) ''cloudflare_bypassed'' 1 of
               Inl ke \<Rightarrow> (Inl ke, self)
             | Inr d \<Rightarrow> (Inr content, self\<lparr>stats := d\<rparr>)))"

text \<open>
  Lines 168-184: the two \<^verbatim>\<open>except\<close> clauses only log, so every \<^verbatim>\<open>Exception\<close> raised
  in the body, also the \<^verbatim>\<open>RateLimitError\<close> and \<^verbatim>\<open>NetworkError\<close> the body raises
  itself, leads on to the standard request. \<open>None\<close> stands for going on there.
\<close>

definition fetch_page_bypass ::
  "adb_scraper \<Rightarrow> fetch_outcome \<Rightarrow> (py_exception + string) option \<times> adb_scraper" where
  "fetch_page_bypass self answer =
     (if has_fetcher self then
        (case bypass_body self answer of
           (Inr content, self1) \<Rightarrow> (Some (Inr content), self1)
         | (Inl e, self1) \<Rightarrow>
             if isinstance e RuntimeError then (None, self1)
             else if isinstance e Exception then (None, self1)
             else (Some (Inl e), self1))
      else (None, self))"

text \<open>The body of the second \<^verbatim>\<open>try\<close> (lines 191-207), given what \<^verbatim>\<open>session.get\<close> answers.\<close>

definition session_body :: "(py_exception + response) \<Rightarrow> py_exception + string" where
  "session_body answer =
     (case answer of
        Inl e \<Rightarrow> Inl e
      | Inr r \<Rightarrow>
          if status_code r = 429 then
            (case headers r ''retry-after'' of
               None \<Rightarrow> Inl \<lparr>kind = RateLimitError, message = ''Rate limited by server''\<rparr>
             | Some v \<Rightarrow>
                 (case int_error v of
                    None \<Rightarrow> Inl \<lparr>kind = RateLimitError, message = ''Rate limited by server''\<rparr>
                  | Some ve \<Rightarrow> Inl ve))
          else if is_cloudflare_block r
          then Inl \<lparr>kind = CloudflareBlockError,
                    message = ''Request blocked by Cloudflare protection''\<rparr>
          else
            (case raise_for_status r of
               Some e \<Rightarrow> Inl e
             | None \<Rightarrow> Inr (body_text r)))"

text \<open>Lines 190-218: the three \<^verbatim>\<open>except\<close> clauses turn requests' exceptions into \<^verbatim>\<open>NetworkError\<close>.\<close>

definition fetch_page_session :: "adb_scraper \<Rightarrow> (py_exception + response) \<Rightarrow> py_exception + string" where
  "fetch_page_session self answer =
     (case session_body answer of
        Inr html \<Rightarrow> Inr html
      | Inl e \<Rightarrow>
          if isinstance e RequestsTimeout
          then Inl \<lparr>kind = NetworkError,
                    message = ''Request timed out after '' @ str_int (timeout self) @ ''s''\<rparr>
          else if isinstance e RequestsConnectionError
          then Inl \<lparr>kind = NetworkError, message = ''Connection error: '' @ message e\<rparr>
          else if isinstance e RequestsHTTPError
          then Inl \<lparr>kind = NetworkError, message = ''HTTP error: '' @ message e\<rparr>
          else Inl e)"

definition fetch_page :: "environment \<Rightarrow> string \<Rightarrow> adb_scraper \<Rightarrow> (py_exception + string) \<times> adb_scraper" where
  "fetch_page env url self =
     (let n = page_fetches self;
          self0 = self\<lparr>page_fetches := Suc n\<rparr>
      in case fetch_page_bypass self0 (fetcher_answer env n url) of
           (Some r, self1) \<Rightarrow> (r, self1)
         | (None, self1) \<Rightarrow> (fetch_page_session self1 (session_answer env n url), self1))"

text \<open>
  Line 240: \<^verbatim>\<open>@retry_with_backoff(max_retries=3, base_delay=2.0, exceptions=(NetworkError,))\<close>.
\<close>

definition fetch_retry_args :: retry_args where
  "fetch_retry_args = retry_defaults\<lparr>max_retries := 3, base_delay := 2, exceptions := [NetworkError]\<rparr>"

definition fetch_with_retry :: "environment \<Rightarrow> adb_scraper \<Rightarrow> string \<Rightarrow> (py_exception + string) \<times> adb_scraper" where
  "fetch_with_retry env self url =
     (case wrapper fetch_retry_args time_sleep (fetch_page env url) (random_random env) self of
        (r, self', tr) \<Rightarrow> (r, self'))"

subsection \<open>Listing pages and detail pages\<close>

definition PROJECTS_URL :: string where
  "PROJECTS_URL = ''https://www.adb.org/projects''"

text \<open>\<^verbatim>\<open>build_url(self.PROJECTS_URL, page=k)\<close>: that URL has no query of its own.\<close>

definition build_url_page :: "int \<Rightarrow> string" where
  "build_url_page k = PROJECTS_URL @ ''?page='' @ str_int k"

text \<open>The body of the \<^verbatim>\<open>try\<close> of \<^verbatim>\<open>scrape_listing_page\<close> (lines 271-279).\<close>

definition listing_body ::
  "environment \<Rightarrow> adb_scraper \<Rightarrow> string \<Rightarrow>
   (py_exception + (project_listing list \<times> string option)) \<times> adb_scraper" where
  "listing_body env self url =
     (case fetch_with_retry env self url of
        (Inl e, self1) \<Rightarrow> (Inl e, self1)
      | (Inr html, self1) \<Rightarrow>
          (case parse_listing env html url of
             Inl e \<Rightarrow> (Inl e, self1)
           | Inr (projects, next_url) \<Rightarrow>
               (case stat_add (stats self1) ''pages_scraped'' 1 of
                  Inl ke \<Rightarrow> (Inl ke, self1)
                | Inr d1 \<Rightarrow>
                    (case stat_add d1 ''projects_found'' (int (length projects)) of
                       Inl ke \<Rightarrow> (Inl ke, self1\<lparr>stats := d1\<rparr>)
                     | Inr d2 \<Rightarrow> (Inr (projects, next_url), self1\<lparr>stats := d2\<rparr>)))))"

definition scrape_listing_page ::
  "environment \<Rightarrow> adb_scraper \<Rightarrow> string option \<Rightarrow> int option \<Rightarrow>
   (py_exception + (project_listing list \<times> string option)) \<times> adb_scraper" where
  "scrape_listing_page env self url page =
     (let url' =
        (case url of
           Some u \<Rightarrow> u
         | None \<Rightarrow>
             (case page of
                Some k \<Rightarrow> if k \<noteq> 0 \<and> k > 1 then build_url_page (k - 1) else PROJECTS_URL
              | None \<Rightarrow> PROJECTS_URL))
      in case listing_body env self url' of
           (Inr r, self1) \<Rightarrow> (Inr r, self1)
         | (Inl e, self1) \<Rightarrow>
             if isinstance e ScraperError then
               (case stat_add (stats self1) ''errors'' 1 of
                  Inl ke \<Rightarrow> (Inl ke, self1)
                | Inr d \<Rightarrow> (Inl e, self1\<lparr>stats := d\<rparr>))
             else (Inl e, self1))"

text \<open>The body of the \<^verbatim>\<open>try\<close> of \<^verbatim>\<open>scrape_project_detail\<close> (lines 298-304).\<close>

definition detail_body ::
  "environment \<Rightarrow> adb_scraper \<Rightarrow> project_listing \<Rightarrow> (py_exception + project_detail) \<times> adb_scraper" where
  "detail_body env self project =
     (case fetch_with_retry env self (detail_url project) of
        (Inl e, self1) \<Rightarrow> (Inl e, self1)
      | (Inr html, self1) \<Rightarrow>
          (case parse_detail env html (detail_url project) project of
             Inl e \<Rightarrow> (Inl e, self1)
           | Inr detail \<Rightarrow>
               (case stat_add (stats self1) ''details_fetched'' 1 of
                  Inl ke \<Rightarrow> (Inl ke, self1)
                | Inr d \<Rightarrow> (Inr detail, self1\<lparr>stats := d\<rparr>))))"

definition scrape_project_detail ::
  "environment \<Rightarrow> adb_scraper \<Rightarrow> project_listing \<Rightarrow> (py_exception + project_detail) \<times> adb_scraper" where
  "scrape_project_detail env self project =
     (case detail_body env self project of
        (Inr detail, self1) \<Rightarrow> (Inr detail, self1)
      | (Inl e, self1) \<Rightarrow>
          if isinstance e ScraperError then
            (case stat_add (stats self1) ''errors'' 1 of
               Inl ke \<Rightarrow> (Inl ke, self1)
             | Inr d \<Rightarrow>
                 (Inr (from_listing (now_isoformat env (page_fetches self1)) project),
                  self1\<lparr>stats := d\<rparr>))
          else (Inl e, self1))"

subsection \<open>The crawl: scrape\_projects\<close>

text \<open>
  A run of the generator to its end gives the records it yielded, in order, the exception
  that came out of it (\<open>None\<close> when it ended by itself) and the instance afterwards.

  Lines 358-367, the \<^verbatim>\<open>for project in projects\<close> loop. An exception that the inner
  \<^verbatim>\<open>except Exception\<close> does not catch ends the loop with the records yielded so far.
\<close>

fun yield_projects ::
  "environment \<Rightarrow> bool \<Rightarrow> adb_scraper \<Rightarrow> project_listing list \<Rightarrow>
   project list \<times> py_exception option \<times> adb_scraper" where
  "yield_projects env include_details self [] = ([], None, self)"
| "yield_projects env include_details self (project # rest) =
     (if include_details then
        (case scrape_project_detail env self project of
           (Inr detail, self1) \<Rightarrow>
             (case yield_projects env include_details self1 rest of
                (ys, ex, self2) \<Rightarrow> (Detail detail # ys, ex, self2))
         | (Inl e, self1) \<Rightarrow>
             if isinstance e Exception then
               (case yield_projects env include_details self1 rest of
                  (ys, ex, self2) \<Rightarrow> (Listing project # ys, ex, self2))
             else ([], Some e, self1))
      else
        (case yield_projects env include_details self rest of
           (ys, ex, self2) \<Rightarrow> (Listing project # ys, ex, self2)))"

text \<open>
  Lines 377-383, the two \<^verbatim>\<open>except\<close> clauses around one page of the crawl, for an
  exception \<open>e\<close> raised in the \<^verbatim>\<open>try\<close> after the records \<open>acc\<close> were yielded: both
  clauses end the generator with \<^verbatim>\<open>break\<close>; any other exception comes out of it.
\<close>

definition crawl_except ::
  "py_exception \<Rightarrow> adb_scraper \<Rightarrow> project list \<Rightarrow> project list \<times> py_exception option \<times> adb_scraper" where
  "crawl_except e self acc =
     (if isinstance e CloudflareBlockError then (acc, None, self)
      else if isinstance e ScraperError then
        (case stat_add (stats self) ''errors'' 1 of
           Inl ke \<Rightarrow> (acc, Some ke, self)
         | Inr d \<Rightarrow> (acc, None, self\<lparr>stats := d\<rparr>))
      else (acc, Some e, self))"

text \<open>Line 337: \<^verbatim>\<open>max_pages and pages_scraped >= max_pages\<close>.\<close>

definition limit_reached :: "int option \<Rightarrow> int \<Rightarrow> bool" where
  "limit_reached max_pages pages_scraped =
     (case max_pages of None \<Rightarrow> False | Some m \<Rightarrow> m \<noteq> 0 \<and> pages_scraped \<ge> m)"

text \<open>Lines 342-347: the URL of the page to fetch.\<close>

definition crawl_url :: "string option \<Rightarrow> int \<Rightarrow> string" where
  "crawl_url next_url current_page =
     (if next_url \<noteq> None \<and> next_url \<noteq> Some [] then the next_url
      else if current_page = 1 then PROJECTS_URL
      else build_url_page (current_page - 1))"

text \<open>
  The \<^verbatim>\<open>while True\<close> loop. Nothing bounds it when the site keeps giving a next page and
  no page limit is set, so the model takes fuel: one unit per page, and \<open>None\<close> when
  the fuel is used up before the generator ends. \<open>acc\<close> holds the records yielded so far.
\<close>

fun scrape_projects_loop ::
  "environment \<Rightarrow> int option \<Rightarrow> bool \<Rightarrow> nat \<Rightarrow> int \<Rightarrow> int \<Rightarrow> string option \<Rightarrow> adb_scraper \<Rightarrow>
   project list \<Rightarrow> (project list \<times> py_exception option \<times> adb_scraper) option" where
  "scrape_projects_loop env max_pages include_details 0 current_page pages_scraped next_url self acc = None"
| "scrape_projects_loop env max_pages include_details (Suc fuel) current_page pages_scraped next_url self acc =
     (if limit_reached max_pages pages_scraped then Some (acc, None, self)
      else
        (case scrape_listing_page env self (Some (crawl_url next_url current_page)) None of
           (Inl e, self1) \<Rightarrow> Some (crawl_except e self1 acc)
         | (Inr (projects, next_url'), self1) \<Rightarrow>
             if projects = [] then Some (acc, None, self1)
             else
               (case yield_projects env include_details self1 projects of
                  (ys, Some e, self2) \<Rightarrow> Some (crawl_except e self2 (acc @ ys))
                | (ys, None, self2) \<Rightarrow>
                    if next_url' = None \<or> next_url' = Some [] then Some (acc @ ys, None, self2)
                    else scrape_projects_loop env max_pages include_details fuel
                           (current_page + 1) (pages_scraped + 1) next_url' self2 (acc @ ys))))"

definition scrape_projects ::
  "environment \<Rightarrow> adb_scraper \<Rightarrow> int option \<Rightarrow> bool \<Rightarrow> int \<Rightarrow> nat \<Rightarrow>
   (project list \<times> py_exception option \<times> adb_scraper) option" where
  "scrape_projects env self max_pages include_details start_page fuel =
     scrape_projects_loop env max_pages include_details fuel start_page 0 None self []"

section \<open>The block classifier as the specification words it\<close>

text \<open>
  Section 4.3 of the specification, written out for comparison with the two classifiers of
  the source, \<open>is_blocked\<close> and \<open>is_cloudflare_block\<close>: a response is blocked when
  its status is 403 or 503 and either its content contains one of the challenge signatures
  or a header of the protection provider is present (a \<^verbatim>\<open>cf-ray\<close> header, or a
  \<^verbatim>\<open>server\<close> header naming cloudflare).
\<close>

definition provider_header :: "(string \<rightharpoonup> string) \<Rightarrow> bool" where
  "provider_header hs =
     (hs ''cf-ray'' \<noteq> None \<or>
      str_contains ''cloudflare'' (py_lower (case hs ''server'' of None \<Rightarrow> [] | Some v \<Rightarrow> v)))"

definition spec_is_block :: "string \<Rightarrow> int \<Rightarrow> (string \<rightharpoonup> string) \<Rightarrow> bool" where
  "spec_is_block content st hs =
     (st \<in> set [403, 503] \<and>
      (list_ex (\<lambda>blocker. str_contains blocker content) blockers \<or> provider_header hs))"

section \<open>Canned environments for running the model\<close>

text \<open>
  A test double in the sense of section 9 of the specification: an environment in which
  every call of the fetcher gives the same answer \<open>fa\<close>, every \<^verbatim>\<open>session.get\<close> the
  same answer \<open>sa\<close>, and the two parsers give \<open>pl\<close> and \<open>pd\<close> whatever the page.
\<close>

definition canned_env ::
  "fetch_outcome \<Rightarrow> (py_exception + response) \<Rightarrow>
   (py_exception + (project_listing list \<times> string option)) \<Rightarrow>
   (py_exception + project_detail) \<Rightarrow> environment" where
  "canned_env fa sa pl pd =
     \<lparr>fetcher_answer = (\<lambda>n url. fa),
      session_answer = (\<lambda>n url. sa),
      now_isoformat = (\<lambda>n. ''2024-01-01T00:00:00''),
      parse_listing = (\<lambda>html url. pl),
      parse_detail = (\<lambda>html url project. pd),
      random_random = (\<lambda>n. 0)\<rparr>"

text \<open>A challenge page as the protection layer serves it, and an ordinary page.\<close>

definition challenge_response :: response where
  "challenge_response =
     \<lparr>status_code = 403, headers = [''cf-ray'' \<mapsto> ''8a1b2c3d4e5f''],
      body_text = ''Just a moment...'', reason = ''Forbidden'',
      final_url = ''https://www.adb.org/projects''\<rparr>"

definition page_response :: response where
  "page_response =
     \<lparr>status_code = 200, headers = Map.empty, body_text = ''<html></html>'', reason = ''OK'',
      final_url = ''https://www.adb.org/projects''\<rparr>"




section \<open>Properties of the fetch orchestrator\<close>

lemmas fetch_defs = fetch_def fetch_cloudscraper_def fetch_playwright_def

lemma fetch_detected_no_fallback:
  "cloudflare_detected self \<Longrightarrow> \<not> use_playwright_fallback self \<Longrightarrow>
   fetch self url light browser = (Inl (all_failed url), self, [])"
  by (simp add: fetch_defs)

lemma fetch_keeps_detected:
  "cloudflare_detected self \<Longrightarrow> cloudflare_detected (fst (snd (fetch self url light browser)))"
  by (auto simp: fetch_defs Let_def split: sum.splits prod.splits)

lemma fetch_keeps_fallback:
  "use_playwright_fallback (fst (snd (fetch self url light browser))) = use_playwright_fallback self"
  by (auto simp: fetch_defs Let_def split: sum.splits prod.splits)

lemma fetch_blocked_sets_detected:
  "\<not> cloudflare_detected self \<Longrightarrow> is_blocked content st \<Longrightarrow>
   cloudflare_detected (fst (snd (fetch self url (Inr (content, st)) browser)))"
  by (auto simp: fetch_defs Let_def split: sum.splits prod.splits)

lemma fetch_blocked_trace:
  "\<not> cloudflare_detected self \<Longrightarrow> is_blocked content st \<Longrightarrow>
   snd (snd (fetch self url (Inr (content, st)) browser)) =
     (if use_playwright_fallback self then [Cloudscraper, Playwright] else [Cloudscraper])"
  by (auto simp: fetch_defs Let_def split: sum.splits prod.splits)

lemma fetch_blocked_no_fallback:
  "\<not> cloudflare_detected self \<Longrightarrow> is_blocked content st \<Longrightarrow> \<not> use_playwright_fallback self \<Longrightarrow>
   fst (fetch self url (Inr (content, st)) browser) = Inl (all_failed url)"
  by (simp add: fetch_defs)

lemma fetch_run_keeps_detected:
  "cloudflare_detected self \<Longrightarrow> \<forall>x \<in> set (fetch_run self calls). cloudflare_detected (fst (snd x))"
proof (induction calls arbitrary: self)
  case Nil
  then show ?case by simp
next
  case (Cons c calls)
  obtain url light browser where c: "c = (url, light, browser)"
    by (cases c) auto
  obtain r self' tr where f: "fetch self url light browser = (r, self', tr)"
    by (cases "fetch self url light browser") auto
  from fetch_keeps_detected[OF Cons.prems, of url light browser] f
  have d: "cloudflare_detected self'" by simp
  from Cons.IH[OF d] show ?case by (simp add: c f d)
qed

lemma fetch_run_no_fallback:
  "cloudflare_detected self \<Longrightarrow> \<not> use_playwright_fallback self \<Longrightarrow>
   fetch_run self calls = map (\<lambda>c. (Inl (all_failed (fst c)), self, [])) calls"
  by (induction calls) (auto simp: fetch_detected_no_fallback)

lemma is_blocked_just_a_moment: "is_blocked ''Just a moment'' 403"
  by (simp add: is_blocked_def blockers_def)

lemma not_blocked_ok: "\<not> is_blocked ''ok'' 200"
  by (simp add: is_blocked_def)

text \<open>
  C1 (as amended). In the NORMAL state (\<open>cloudflare_detected\<close> false), when the
  Cloudscraper response of a \<^verbatim>\<open>fetch\<close> call is classified as blocked, the instance
  is ESCALATED after that call, and during the call the backends invoked are Cloudscraper
  and then, if \<open>use_playwright_fallback\<close> is set, Playwright; without the fallback only
  Cloudscraper is invoked and the call raises the \<^verbatim>\<open>RuntimeError\<close> that says all
  strategies failed. The flag is monotonic: from a state where it is true, it is true
  after every call of every sequence of \<^verbatim>\<open>fetch\<close> calls.
\<close>

theorem fetch_blocked_escalates:
  "(\<not> cloudflare_detected self \<and> is_blocked content st \<longrightarrow>
      cloudflare_detected (fst (snd (fetch self url (Inr (content, st)) browser))) \<and>
      snd (snd (fetch self url (Inr (content, st)) browser)) =
        (if use_playwright_fallback self then [Cloudscraper, Playwright] else [Cloudscraper]) \<and>
      (use_playwright_fallback self \<or>
       fst (fetch self url (Inr (content, st)) browser) = Inl (all_failed url))) \<and>
   (cloudflare_detected self' \<longrightarrow>
      (\<forall>x \<in> set (fetch_run self' calls). cloudflare_detected (fst (snd x))))"
  using fetch_blocked_sets_detected fetch_blocked_trace fetch_blocked_no_fallback
    fetch_run_keeps_detected
  by blast

theorem fetch_blocked_escalates_witness:
  "\<not> cloudflare_detected (HybridFetcher_init 1.5 True) \<and>
   is_blocked ''Just a moment'' 403 \<and>
   cloudflare_detected
     (fst (snd (fetch (HybridFetcher_init 1.5 True) ''u'' (Inr (''Just a moment'', 403))
                  (Inr (''ok'', 200))))) \<and>
   snd (snd (fetch (HybridFetcher_init 1.5 True) ''u'' (Inr (''Just a moment'', 403))
               (Inr (''ok'', 200)))) = [Cloudscraper, Playwright] \<and>
   cloudflare_detected ((HybridFetcher_init 1.5 True)\<lparr>cloudflare_detected := True\<rparr>) \<and>
   cloudflare_detected
     (fst (snd (hd (fetch_run ((HybridFetcher_init 1.5 True)\<lparr>cloudflare_detected := True\<rparr>)
                      [(''u'', Inr (''ok'', 200), Inr (''ok'', 200))]))))"
  using fetch_blocked_escalates
    [of "HybridFetcher_init 1.5 True" "''Just a moment''" 403 "''u''" "Inr (''ok'', 200)"
        "(HybridFetcher_init 1.5 True)\<lparr>cloudflare_detected := True\<rparr>"
        "[(''u'', Inr (''ok'', 200), Inr (''ok'', 200))]"]
    is_blocked_just_a_moment not_blocked_ok
  by (simp add: HybridFetcher_init_def fetch_defs)

text \<open>
  C1 as stated fails for an instance built with \<open>use_playwright_fallback = False\<close>: the
  blocked Cloudscraper response sets the flag, but the call ends with the
  \<^verbatim>\<open>RuntimeError\<close> and Playwright is not invoked.
\<close>

theorem fetch_blocked_no_browser_counterexample:
  "\<not> cloudflare_detected (HybridFetcher_init 1.5 False) \<and>
   is_blocked ''Just a moment'' 403 \<and>
   Playwright \<notin> set (snd (snd (fetch (HybridFetcher_init 1.5 False) ''u''
                                   (Inr (''Just a moment'', 403)) (Inr (''ok'', 200))))) \<and>
   fst (fetch (HybridFetcher_init 1.5 False) ''u'' (Inr (''Just a moment'', 403))
          (Inr (''ok'', 200))) = Inl (all_failed ''u'')"
  using is_blocked_just_a_moment
  by (simp add: HybridFetcher_init_def fetch_defs)

text \<open>
  C5 (as amended). In the NORMAL state with the fallback enabled, when Cloudscraper
  raises an \<^verbatim>\<open>Exception\<close> during a \<^verbatim>\<open>fetch\<close> call, Playwright is tried in the same
  call and \<open>consecutive_failures\<close> grows by one, but the instance stays NORMAL: the
  flag is still false, and the next \<^verbatim>\<open>fetch\<close> call starts with Cloudscraper again.
\<close>

theorem lightweight_exception_keeps_normal:
  "\<not> cloudflare_detected self \<and> use_playwright_fallback self \<and> isinstance e Exception \<longrightarrow>
     \<not> cloudflare_detected (fst (snd (fetch self url (Inl e) browser))) \<and>
     consecutive_failures (fst (snd (fetch self url (Inl e) browser))) =
       consecutive_failures self + 1 \<and>
     snd (snd (fetch self url (Inl e) browser)) = [Cloudscraper, Playwright] \<and>
     hd (snd (snd (fetch (fst (snd (fetch self url (Inl e) browser))) url' light' browser')))
       = Cloudscraper"
  by (auto simp: fetch_defs Let_def split: sum.splits prod.splits)

theorem lightweight_exception_keeps_normal_witness:
  "\<not> cloudflare_detected (HybridFetcher_init 1.5 True) \<and>
   use_playwright_fallback (HybridFetcher_init 1.5 True) \<and>
   isinstance \<lparr>kind = RequestsConnectionError, message = ''refused''\<rparr> Exception \<and>
   \<not> cloudflare_detected
       (fst (snd (fetch (HybridFetcher_init 1.5 True) ''u''
                    (Inl \<lparr>kind = RequestsConnectionError, message = ''refused''\<rparr>)
                    (Inr (''ok'', 200))))) \<and>
   consecutive_failures
       (fst (snd (fetch (HybridFetcher_init 1.5 True) ''u''
                    (Inl \<lparr>kind = RequestsConnectionError, message = ''refused''\<rparr>)
                    (Inr (''ok'', 200))))) = 1"
  using lightweight_exception_keeps_normal
    [of "HybridFetcher_init 1.5 True" "\<lparr>kind = RequestsConnectionError, message = ''refused''\<rparr>"
        "''u''" "Inr (''ok'', 200)"]
  by (simp add: HybridFetcher_init_def isinstance_def issubclass_def)

text \<open>
  C5 as stated fails: after a call in which Cloudscraper raised, the instance is not
  ESCALATED, and the next call invokes Cloudscraper (and returns its answer).
\<close>

theorem lightweight_exception_counterexample:
  "\<not> cloudflare_detected (HybridFetcher_init 1.5 True) \<and>
   use_playwright_fallback (HybridFetcher_init 1.5 True) \<and>
   \<not> cloudflare_detected
       (fst (snd (fetch (HybridFetcher_init 1.5 True) ''u''
                    (Inl \<lparr>kind = RequestsConnectionError, message = ''refused''\<rparr>)
                    (Inr (''ok'', 200))))) \<and>
   snd (snd (fetch
               (fst (snd (fetch (HybridFetcher_init 1.5 True) ''u''
                            (Inl \<lparr>kind = RequestsConnectionError, message = ''refused''\<rparr>)
                            (Inr (''ok'', 200)))))
               ''v'' (Inr (''ok'', 200)) (Inr (''ok'', 200)))) = [Cloudscraper]"
  using not_blocked_ok
  by (simp add: HybridFetcher_init_def fetch_defs isinstance_def issubclass_def)

text \<open>
  C10. For an instance with \<open>use_playwright_fallback = False\<close> in the NORMAL state,
  after a \<^verbatim>\<open>fetch\<close> call whose Cloudscraper response is classified as blocked, every
  call of every later sequence of \<^verbatim>\<open>fetch\<close> calls raises the
  \<^verbatim>\<open>RuntimeError\<close> "All fetch strategies failed", invokes no backend and leaves
  the instance as it is.
\<close>

theorem no_fallback_fails_immediately:
  "\<not> use_playwright_fallback self \<and> \<not> cloudflare_detected self \<and> is_blocked content st \<longrightarrow>
     fetch_run (fst (snd (fetch self url (Inr (content, st)) browser))) calls =
       map (\<lambda>c. (Inl (all_failed (fst c)),
                  fst (snd (fetch self url (Inr (content, st)) browser)), [])) calls"
  using fetch_run_no_fallback fetch_blocked_sets_detected fetch_keeps_fallback
  by blast

theorem no_fallback_fails_immediately_witness:
  "\<not> use_playwright_fallback (HybridFetcher_init 1.5 False) \<and>
   \<not> cloudflare_detected (HybridFetcher_init 1.5 False) \<and>
   is_blocked ''Just a moment'' 403 \<and>
   map (\<lambda>x. (fst x, snd (snd x)))
     (fetch_run
        (fst (snd (fetch (HybridFetcher_init 1.5 False) ''u'' (Inr (''Just a moment'', 403))
                     (Inr (''ok'', 200)))))
        [(''v'', Inr (''ok'', 200), Inr (''ok'', 200)),
         (''w'', Inr (''ok'', 200), Inr (''ok'', 200))]) =
     [(Inl (all_failed ''v''), []), (Inl (all_failed ''w''), [])]"
  using no_fallback_fails_immediately
    [of "HybridFetcher_init 1.5 False" "''Just a moment''" 403 "''u''" "Inr (''ok'', 200)"
        "[(''v'', Inr (''ok'', 200), Inr (''ok'', 200)),
          (''w'', Inr (''ok'', 200), Inr (''ok'', 200))]"]
    is_blocked_just_a_moment
  by (simp add: HybridFetcher_init_def)

section \<open>Properties of the backoff retrier\<close>




























section \<open>Properties of the pacer\<close>



lemma wait_keeps_delays:
  "min_delay (snd (wait self now d now')) = min_delay self"
  "max_delay (snd (wait self now d now')) = max_delay self"
  by (simp_all add: wait_def)





section \<open>Properties of the block classifiers\<close>

lemma str_contains_sublist: "str_contains sub s = sublist sub s"
  by (induction s) (simp_all add: sublist_Cons_right)

lemma str_contains_take: "str_contains sub (take n s) \<Longrightarrow> str_contains sub s"
  unfolding str_contains_sublist
  by (metis sublist_order.order_trans sublist_take)

lemma str_contains_trans: "str_contains a b \<Longrightarrow> str_contains b s \<Longrightarrow> str_contains a s"
  unfolding str_contains_sublist
  by (rule sublist_order.order_trans)

lemma just_a_moment_dots: "str_contains ''Just a moment'' ''Just a moment...''"
  by simp

lemma is_blocked_iff:
  "is_blocked content st =
     (st \<in> set [403, 503] \<and> list_ex (\<lambda>blocker. str_contains blocker content) blockers)"
  by (simp add: is_blocked_def)

lemma is_cloudflare_block_iff:
  "is_cloudflare_block r =
     (status_code r \<in> set [403, 503] \<and>
      (provider_header (headers r) \<or>
       str_contains ''Checking your browser'' (take 1000 (body_text r)) \<or>
       str_contains ''cf-browser-verification'' (take 1000 (body_text r)) \<or>
       str_contains ''Just a moment...'' (take 500 (body_text r))))"
  by (auto simp: is_cloudflare_block_def provider_header_def Let_def)

lemma is_blocked_sound: "is_blocked content st \<Longrightarrow> spec_is_block content st hs"
  by (simp add: is_blocked_iff spec_is_block_def)

lemma is_cloudflare_block_sound:
  assumes "is_cloudflare_block r"
  shows "spec_is_block (body_text r) (status_code r) (headers r)"
proof -
  from assms have st: "status_code r \<in> set [403, 503]"
    by (simp add: is_cloudflare_block_iff)
  from assms consider
      (h) "provider_header (headers r)"
    | (a) "str_contains ''Checking your browser'' (take 1000 (body_text r))"
    | (b) "str_contains ''cf-browser-verification'' (take 1000 (body_text r))"
    | (c) "str_contains ''Just a moment...'' (take 500 (body_text r))"
    by (auto simp: is_cloudflare_block_iff)
  then have "list_ex (\<lambda>blocker. str_contains blocker (body_text r)) blockers \<or>
             provider_header (headers r)"
  proof cases
    case h
    then show ?thesis by simp
  next
    case a
    then have "str_contains ''Checking your browser'' (body_text r)"
      by (rule str_contains_take)
    then show ?thesis by (simp add: blockers_def)
  next
    case b
    then have "str_contains ''cf-browser-verification'' (body_text r)"
      by (rule str_contains_take)
    then show ?thesis by (simp add: blockers_def)
  next
    case c
    then have "str_contains ''Just a moment...'' (body_text r)"
      by (rule str_contains_take)
    with just_a_moment_dots have "str_contains ''Just a moment'' (body_text r)"
      by (rule str_contains_trans)
    then show ?thesis by (simp add: blockers_def)
  qed
  with st show ?thesis by (simp add: spec_is_block_def)
qed

text \<open>
  C4 (as amended). Each classifier declares a response blocked only if its status is 403
  or 503 and the content contains a challenge signature or a provider header is present.
  \<open>is_blocked\<close> (the orchestrator's, which sees no headers) declares blocked exactly
  when the status is 403 or 503 and the content contains one of its five signatures.
  \<open>is_cloudflare_block\<close> (the scraper's) declares blocked exactly when the status is
  403 or 503 and a \<^verbatim>\<open>cf-ray\<close> header is present, or the \<^verbatim>\<open>server\<close> header contains
  \<^verbatim>\<open>cloudflare\<close>, or one of its three phrases occurs at the start of the text (within
  1000, 1000 and 500 characters). A response with a 2xx status is never classified as
  blocked by either.
\<close>

theorem block_classifiers_status_gate:
  "(is_blocked content st \<longrightarrow> spec_is_block content st hs) \<and>
   (is_cloudflare_block r \<longrightarrow> spec_is_block (body_text r) (status_code r) (headers r)) \<and>
   is_blocked content st =
     (st \<in> set [403, 503] \<and> list_ex (\<lambda>blocker. str_contains blocker content) blockers) \<and>
   is_cloudflare_block r =
     (status_code r \<in> set [403, 503] \<and>
      (provider_header (headers r) \<or>
       str_contains ''Checking your browser'' (take 1000 (body_text r)) \<or>
       str_contains ''cf-browser-verification'' (take 1000 (body_text r)) \<or>
       str_contains ''Just a moment...'' (take 500 (body_text r)))) \<and>
   (200 \<le> st \<and> st < 300 \<longrightarrow> \<not> is_blocked content st) \<and>
   (200 \<le> status_code r \<and> status_code r < 300 \<longrightarrow> \<not> is_cloudflare_block r)"
proof (intro conjI impI)
  show "is_blocked content st \<Longrightarrow> spec_is_block content st hs"
    by (rule is_blocked_sound)
  show "is_cloudflare_block r \<Longrightarrow> spec_is_block (body_text r) (status_code r) (headers r)"
    by (rule is_cloudflare_block_sound)
  show "is_blocked content st =
     (st \<in> set [403, 503] \<and> list_ex (\<lambda>blocker. str_contains blocker content) blockers)"
    by (rule is_blocked_iff)
  show "is_cloudflare_block r =
     (status_code r \<in> set [403, 503] \<and>
      (provider_header (headers r) \<or>
       str_contains ''Checking your browser'' (take 1000 (body_text r)) \<or>
       str_contains ''cf-browser-verification'' (take 1000 (body_text r)) \<or>
       str_contains ''Just a moment...'' (take 500 (body_text r))))"
    by (rule is_cloudflare_block_iff)
  show "200 \<le> st \<and> st < 300 \<Longrightarrow> \<not> is_blocked content st"
    by (auto simp: is_blocked_def)
  show "200 \<le> status_code r \<and> status_code r < 300 \<Longrightarrow> \<not> is_cloudflare_block r"
    by (auto simp: is_cloudflare_block_def Let_def)
qed

theorem block_classifiers_status_gate_witness:
  "is_blocked ''Just a moment'' 403 \<and>
   spec_is_block ''Just a moment'' 403 Map.empty \<and>
   is_cloudflare_block
     \<lparr>status_code = 503, headers = [''cf-ray'' \<mapsto> ''8a1b''], body_text = ''busy'',
      reason = ''Service Unavailable'', final_url = ''u''\<rparr> \<and>
   spec_is_block ''busy'' 503 [''cf-ray'' \<mapsto> ''8a1b''] \<and>
   (200::int) \<le> 200 \<and> (200::int) < 300 \<and>
   \<not> is_blocked ''Just a moment'' 200 \<and>
   \<not> is_cloudflare_block
       \<lparr>status_code = 200, headers = [''cf-ray'' \<mapsto> ''8a1b''], body_text = ''Just a moment...'',
        reason = ''OK'', final_url = ''u''\<rparr>"
proof -
  have b1: "is_blocked ''Just a moment'' 403"
    by (simp add: is_blocked_def blockers_def)
  have b2: "is_cloudflare_block
     \<lparr>status_code = 503, headers = [''cf-ray'' \<mapsto> ''8a1b''], body_text = ''busy'',
      reason = ''Service Unavailable'', final_url = ''u''\<rparr>"
    by (simp add: is_cloudflare_block_def)
  from block_classifiers_status_gate
    [where content = "''Just a moment''" and st = 403 and hs = Map.empty
       and r = "\<lparr>status_code = 503, headers = [''cf-ray'' \<mapsto> ''8a1b''], body_text = ''busy'',
                  reason = ''Service Unavailable'', final_url = ''u''\<rparr>"]
    b1 b2
  have c1: "spec_is_block ''Just a moment'' 403 Map.empty \<and>
            spec_is_block ''busy'' 503 [''cf-ray'' \<mapsto> ''8a1b'']"
    by simp
  from block_classifiers_status_gate
    [where content = "''Just a moment''" and st = 200
       and r = "\<lparr>status_code = 200, headers = [''cf-ray'' \<mapsto> ''8a1b''],
                  body_text = ''Just a moment...'', reason = ''OK'', final_url = ''u''\<rparr>"]
  have c2: "\<not> is_blocked ''Just a moment'' 200 \<and>
   \<not> is_cloudflare_block
       \<lparr>status_code = 200, headers = [''cf-ray'' \<mapsto> ''8a1b''], body_text = ''Just a moment...'',
        reason = ''OK'', final_url = ''u''\<rparr>"
    by simp
  from b1 b2 c1 c2 show ?thesis by simp
qed

text \<open>
  C4 as stated fails in the direction from (a) or (b) to blocked. A 403 response with a
  \<^verbatim>\<open>cf-ray\<close> header and no signature in its content is not blocked for
  \<open>is_blocked\<close>, which is not given the headers; a 403 response whose content is the
  signature \<^verbatim>\<open>challenge-platform\<close>, without provider header, is blocked for
  \<open>is_blocked\<close> but not for \<open>is_cloudflare_block\<close>, which does not look for that
  signature.
\<close>

theorem block_classifier_counterexample:
  "spec_is_block ''Forbidden'' 403 [''cf-ray'' \<mapsto> ''8a1b''] \<and>
   \<not> is_blocked ''Forbidden'' 403 \<and>
   spec_is_block ''challenge-platform'' 403 Map.empty \<and>
   is_blocked ''challenge-platform'' 403 \<and>
   \<not> is_cloudflare_block
       \<lparr>status_code = 403, headers = Map.empty, body_text = ''challenge-platform'',
        reason = ''Forbidden'', final_url = ''u''\<rparr>"
  by (simp add: spec_is_block_def provider_header_def is_blocked_def blockers_def
      is_cloudflare_block_def py_lower_def)

section \<open>Properties of the statistics\<close>

text \<open>
  C9 fails on the code. A new scraper has the counter \<^verbatim>\<open>cloudflare_bypassed\<close> at 0;
  after \<^verbatim>\<open>reset_stats\<close> the key is gone from the dictionary, while the four other
  counters are present and 0. From then on the increment on line 178 raises a
  \<^verbatim>\<open>KeyError\<close> inside \<^verbatim>\<open>_fetch_page\<close>, which the \<^verbatim>\<open>except Exception\<close> there
  swallows: a page the fetcher obtained with status 200 is dropped and the standard
  request is made instead.
\<close>

theorem reset_stats_drops_cloudflare_bypassed:
  "get_stats (ADBProjectScraper_init 30 True ''hybrid'') ''cloudflare_bypassed'' = Some 0 \<and>
   get_stats (reset_stats (ADBProjectScraper_init 30 True ''hybrid'')) ''cloudflare_bypassed'' = None \<and>
   get_stats (reset_stats (ADBProjectScraper_init 30 True ''hybrid'')) ''pages_scraped'' = Some 0 \<and>
   get_stats (reset_stats (ADBProjectScraper_init 30 True ''hybrid'')) ''projects_found'' = Some 0 \<and>
   get_stats (reset_stats (ADBProjectScraper_init 30 True ''hybrid'')) ''details_fetched'' = Some 0 \<and>
   get_stats (reset_stats (ADBProjectScraper_init 30 True ''hybrid'')) ''errors'' = Some 0 \<and>
   fst (fetch_page_bypass (ADBProjectScraper_init 30 True ''hybrid'') (Inr (''page'', 200))) =
     Some (Inr ''page'') \<and>
   fst (fetch_page_bypass (reset_stats (ADBProjectScraper_init 30 True ''hybrid''))
          (Inr (''page'', 200))) = None"
  by (simp add: get_stats_def reset_stats_def ADBProjectScraper_init_def init_stats_def
      fetch_page_bypass_def bypass_body_def stat_add_def isinstance_def issubclass_def)

section \<open>Properties of the crawl controller\<close>


lemma stat_add_present: "d k = Some v \<Longrightarrow> stat_add d k n = Inr (d(k \<mapsto> v + n))"
  by (simp add: stat_add_def)

lemma stat_add_KeyError: "stat_add d k n = Inl ke \<Longrightarrow> kind ke = KeyError"
  by (auto simp: stat_add_def split: option.splits)

lemma KeyError_not_ScraperError: "kind ke = KeyError \<Longrightarrow> \<not> isinstance ke ScraperError"
  by (simp add: isinstance_def issubclass_def)











lemma scrape_listing_page_error_counted:
  assumes "scrape_listing_page env self url page = (Inl e, self1)"
    and "isinstance e ScraperError"
  shows "stats self1 ''errors'' \<noteq> None"
proof -
  let ?u = "case url of Some u \<Rightarrow> u
            | None \<Rightarrow> (case page of
                         Some k \<Rightarrow> if k \<noteq> 0 \<and> k > 1 then build_url_page (k - 1) else PROJECTS_URL
                       | None \<Rightarrow> PROJECTS_URL)"
  obtain r s0 where b: "listing_body env self ?u = (r, s0)"
    by (cases "listing_body env self ?u") auto
  show ?thesis
  proof (cases r)
    case (Inr x)
    with b assms(1) show ?thesis by (simp add: scrape_listing_page_def)
  next
    case (Inl e0)
    show ?thesis
    proof (cases "isinstance e0 ScraperError")
      case False
      with Inl b assms show ?thesis by (auto simp: scrape_listing_page_def)
    next
      case True
      show ?thesis
      proof (cases "stat_add (stats s0) ''errors'' 1")
        case (Inl ke)
        with True \<open>r = Inl e0\<close> b assms(1) have "e = ke"
          by (simp add: scrape_listing_page_def)
        with Inl assms(2) show ?thesis
          using stat_add_KeyError KeyError_not_ScraperError by blast
      next
        case (Inr d)
        with True \<open>r = Inl e0\<close> b assms(1) have "self1 = s0\<lparr>stats := d\<rparr>"
          by (simp add: scrape_listing_page_def)
        moreover from Inr have "d ''errors'' \<noteq> None"
          by (auto simp: stat_add_def split: option.splits)
        ultimately show ?thesis by simp
      qed
    qed
  qed
qed

lemma crawl_except_swallows:
  assumes "isinstance e ScraperError" and "stats self ''errors'' \<noteq> None"
  shows "\<exists>self2. crawl_except e self acc = (acc, None, self2) \<and>
                 page_fetches self2 = page_fetches self"
proof -
  from assms(2) obtain n where "stats self ''errors'' = Some n" by blast
  with assms(1) show ?thesis
    by (simp add: crawl_except_def stat_add_present)
qed

lemma CloudflareBlockError_is_ScraperError:
  "isinstance e CloudflareBlockError \<Longrightarrow> isinstance e ScraperError"
  by (cases "kind e") (simp_all add: isinstance_def issubclass_def)

lemma crawl_except_propagates:
  "\<not> isinstance e ScraperError \<Longrightarrow> crawl_except e self acc = (acc, Some e, self)"
  using CloudflareBlockError_is_ScraperError by (auto simp: crawl_except_def)

lemma wrapper_first_success:
  "0 \<le> max_retries p \<Longrightarrow> func s = (Inr v, s') \<Longrightarrow>
   wrapper p slp func rnd s = (Inr v, s', [Invoke])"
proof -
  assume a: "0 \<le> max_retries p" and f: "func s = (Inr v, s')"
  from a have "nat (max_retries p + 1) = Suc (nat (max_retries p))" by simp
  with f show ?thesis by (simp add: wrapper_def)
qed

lemma wrapper_first_not_retryable:
  "0 \<le> max_retries p \<Longrightarrow> func s = (Inl e, s') \<Longrightarrow> \<not> isinstance_any e (exceptions p) \<Longrightarrow>
   wrapper p slp func rnd s = (Inl e, s', [Invoke])"
proof -
  assume a: "0 \<le> max_retries p" and f: "func s = (Inl e, s')"
    and n: "\<not> isinstance_any e (exceptions p)"
  from a have "nat (max_retries p + 1) = Suc (nat (max_retries p))" by simp
  with f n show ?thesis by (simp add: wrapper_def)
qed

lemma fetch_with_retry_success:
  "fetch_page env url self = (Inr html, self1) \<Longrightarrow> fetch_with_retry env self url = (Inr html, self1)"
  by (simp add: fetch_with_retry_def fetch_retry_args_def retry_defaults_def
      wrapper_first_success)

lemma fetch_with_retry_not_network:
  "fetch_page env url self = (Inl e, self1) \<Longrightarrow> \<not> isinstance e NetworkError \<Longrightarrow>
   fetch_with_retry env self url = (Inl e, self1)"
  by (simp add: fetch_with_retry_def fetch_retry_args_def retry_defaults_def
      wrapper_first_not_retryable isinstance_any_def)

lemma canned_env_simps:
  "fetcher_answer (canned_env fa sa pl pd) n url = fa"
  "session_answer (canned_env fa sa pl pd) n url = sa"
  "now_isoformat (canned_env fa sa pl pd) n = ''2024-01-01T00:00:00''"
  "parse_listing (canned_env fa sa pl pd) html url = pl"
  "parse_detail (canned_env fa sa pl pd) html url project = pd"
  "random_random (canned_env fa sa pl pd) n = 0"
  by (simp_all add: canned_env_def)

lemmas exc_simps = isinstance_def issubclass_def isinstance_any_def

lemmas fetch_page_defs =
  fetch_page_def fetch_page_bypass_def bypass_body_def fetch_page_session_def
  session_body_def raise_for_status_def stat_add_def

lemma blocked_fetch_page:
  "fetch_page (canned_env (Inl (all_failed u)) (Inr challenge_response) pl pd) url
     (ADBProjectScraper_init 30 True ''hybrid'') =
   (Inl \<lparr>kind = CloudflareBlockError, message = ''Request blocked by Cloudflare protection''\<rparr>,
    (ADBProjectScraper_init 30 True ''hybrid'')\<lparr>page_fetches := 1\<rparr>)"
  by (simp add: fetch_page_defs canned_env_def challenge_response_def all_failed_def
      ADBProjectScraper_init_def is_cloudflare_block_def exc_simps)

lemma blocked_scrape_listing_page:
  "scrape_listing_page (canned_env (Inl (all_failed u)) (Inr challenge_response) pl pd)
     (ADBProjectScraper_init 30 True ''hybrid'') (Some url) None =
   (Inl \<lparr>kind = CloudflareBlockError, message = ''Request blocked by Cloudflare protection''\<rparr>,
    (ADBProjectScraper_init 30 True ''hybrid'')
      \<lparr>stats := init_stats(''errors'' \<mapsto> 1), page_fetches := 1\<rparr>)"
proof -
  have "fetch_with_retry (canned_env (Inl (all_failed u)) (Inr challenge_response) pl pd)
          (ADBProjectScraper_init 30 True ''hybrid'') url =
        (Inl \<lparr>kind = CloudflareBlockError, message = ''Request blocked by Cloudflare protection''\<rparr>,
         (ADBProjectScraper_init 30 True ''hybrid'')\<lparr>page_fetches := 1\<rparr>)"
    by (rule fetch_with_retry_not_network[OF blocked_fetch_page]) (simp add: exc_simps)
  then show ?thesis
    by (simp add: scrape_listing_page_def listing_body_def exc_simps stat_add_def
        ADBProjectScraper_init_def init_stats_def)
qed

text \<open>
  C2 (as amended). At any point of a crawl where the page limit is not reached: when
  \<^verbatim>\<open>scrape_listing_page\<close> raises an error of the \<^verbatim>\<open>ScraperError\<close> family (a
  \<^verbatim>\<open>CloudflareBlockError\<close> once the fetcher is exhausted and the standard request is
  blocked, a \<^verbatim>\<open>NetworkError\<close> that outlasted the retries, a \<^verbatim>\<open>ParseError\<close>), the
  crawl stops there: the generator ends with exactly the records \<open>acc\<close> yielded before,
  no further page is fetched, and no exception comes out of it. An exception outside that
  family does come out of the generator, again after the records yielded before.
\<close>

theorem crawl_stops_on_listing_error:
  "(\<not> limit_reached max_pages pages_scraped \<and>
    scrape_listing_page env self (Some (crawl_url next_url current_page)) None = (Inl e, self1) \<and>
    isinstance e ScraperError \<longrightarrow>
      (\<exists>self2. scrape_projects_loop env max_pages include_details (Suc fuel) current_page
                  pages_scraped next_url self acc = Some (acc, None, self2) \<and>
                page_fetches self2 = page_fetches self1)) \<and>
   (\<not> limit_reached max_pages' pages_scraped' \<and>
    scrape_listing_page env' self' (Some (crawl_url next_url' current_page')) None = (Inl e', self1') \<and>
    \<not> isinstance e' ScraperError \<longrightarrow>
      scrape_projects_loop env' max_pages' include_details' (Suc fuel') current_page'
        pages_scraped' next_url' self' acc' = Some (acc', Some e', self1'))"
proof (intro conjI impI)
  assume a: "\<not> limit_reached max_pages pages_scraped \<and>
    scrape_listing_page env self (Some (crawl_url next_url current_page)) None = (Inl e, self1) \<and>
    isinstance e ScraperError"
  then have "stats self1 ''errors'' \<noteq> None"
    using scrape_listing_page_error_counted by blast
  with a obtain self2 where "crawl_except e self1 acc = (acc, None, self2)"
    and "page_fetches self2 = page_fetches self1"
    using crawl_except_swallows by blast
  with a show "\<exists>self2. scrape_projects_loop env max_pages include_details (Suc fuel) current_page
                  pages_scraped next_url self acc = Some (acc, None, self2) \<and>
                page_fetches self2 = page_fetches self1"
    by simp
next
  assume b: "\<not> limit_reached max_pages' pages_scraped' \<and>
    scrape_listing_page env' self' (Some (crawl_url next_url' current_page')) None = (Inl e', self1') \<and>
    \<not> isinstance e' ScraperError"
  then have "crawl_except e' self1' acc' = (acc', Some e', self1')"
    using crawl_except_propagates by blast
  with b show "scrape_projects_loop env' max_pages' include_details' (Suc fuel') current_page'
        pages_scraped' next_url' self' acc' = Some (acc', Some e', self1')"
    by simp
qed

theorem crawl_stops_on_listing_error_witness:
  "\<not> limit_reached None 0 \<and>
   isinstance \<lparr>kind = CloudflareBlockError,
               message = ''Request blocked by Cloudflare protection''\<rparr> ScraperError \<and>
   \<not> isinstance \<lparr>kind = OtherException, message = ''no parser''\<rparr> ScraperError \<and>
   map_option fst
     (scrape_projects_loop
        (canned_env (Inl (all_failed PROJECTS_URL)) (Inr challenge_response) (Inr ([], None))
           (Inl \<lparr>kind = ParseError, message = []\<rparr>))
        None False (Suc 0) 1 0 None (ADBProjectScraper_init 30 True ''hybrid'') []) = Some [] \<and>
   map_option (fst \<circ> snd)
     (scrape_projects_loop
        (canned_env (Inl (all_failed PROJECTS_URL)) (Inr challenge_response) (Inr ([], None))
           (Inl \<lparr>kind = ParseError, message = []\<rparr>))
        None False (Suc 0) 1 0 None (ADBProjectScraper_init 30 True ''hybrid'') []) = Some None \<and>
   scrape_projects_loop
     (canned_env (Inr (''<html></html>'', 200)) (Inr page_response)
        (Inl \<lparr>kind = OtherException, message = ''no parser''\<rparr>)
        (Inl \<lparr>kind = ParseError, message = []\<rparr>))
     None False (Suc 0) 1 0 None (ADBProjectScraper_init 30 True ''hybrid'') [] =
   Some ([], Some \<lparr>kind = OtherException, message = ''no parser''\<rparr>,
         (ADBProjectScraper_init 30 True ''hybrid'')
           \<lparr>stats := init_stats(''cloudflare_bypassed'' \<mapsto> 1), page_fetches := 1\<rparr>)"
proof -
  have u: "crawl_url None 1 = PROJECTS_URL"
    by (simp add: crawl_url_def)
  have l: "\<not> limit_reached None 0"
    by (simp add: limit_reached_def)
  have i1: "isinstance \<lparr>kind = CloudflareBlockError,
               message = ''Request blocked by Cloudflare protection''\<rparr> ScraperError"
    by (simp add: exc_simps)
  have i2: "\<not> isinstance \<lparr>kind = OtherException, message = ''no parser''\<rparr> ScraperError"
    by (simp add: exc_simps)
  have f2: "fetch_page
     (canned_env (Inr (''<html></html>'', 200)) (Inr page_response)
        (Inl \<lparr>kind = OtherException, message = ''no parser''\<rparr>)
        (Inl \<lparr>kind = ParseError, message = []\<rparr>))
     PROJECTS_URL (ADBProjectScraper_init 30 True ''hybrid'') =
     (Inr ''<html></html>'',
      (ADBProjectScraper_init 30 True ''hybrid'')
        \<lparr>stats := init_stats(''cloudflare_bypassed'' \<mapsto> 1), page_fetches := 1\<rparr>)"
    by (simp add: fetch_page_defs canned_env_def ADBProjectScraper_init_def init_stats_def)
  have s2: "scrape_listing_page
     (canned_env (Inr (''<html></html>'', 200)) (Inr page_response)
        (Inl \<lparr>kind = OtherException, message = ''no parser''\<rparr>)
        (Inl \<lparr>kind = ParseError, message = []\<rparr>))
     (ADBProjectScraper_init 30 True ''hybrid'') (Some (crawl_url None 1)) None =
     (Inl \<lparr>kind = OtherException, message = ''no parser''\<rparr>,
      (ADBProjectScraper_init 30 True ''hybrid'')
        \<lparr>stats := init_stats(''cloudflare_bypassed'' \<mapsto> 1), page_fetches := 1\<rparr>)"
    by (simp add: u scrape_listing_page_def listing_body_def
        fetch_with_retry_success[OF f2] canned_env_simps exc_simps)
  note t = crawl_stops_on_listing_error
    [where max_pages = None and pages_scraped = 0 and next_url = None and current_page = 1
       and env = "canned_env (Inl (all_failed PROJECTS_URL)) (Inr challenge_response)
                    (Inr ([], None)) (Inl \<lparr>kind = ParseError, message = []\<rparr>)"
       and self = "ADBProjectScraper_init 30 True ''hybrid''"
       and e = "\<lparr>kind = CloudflareBlockError,
                  message = ''Request blocked by Cloudflare protection''\<rparr>"
       and ?self1.0 = "(ADBProjectScraper_init 30 True ''hybrid'')
                         \<lparr>stats := init_stats(''errors'' \<mapsto> 1), page_fetches := 1\<rparr>"
       and include_details = False and fuel = 0 and acc = "[]"
       and max_pages' = None and pages_scraped' = 0 and next_url' = None and current_page' = 1
       and env' = "canned_env (Inr (''<html></html>'', 200)) (Inr page_response)
                     (Inl \<lparr>kind = OtherException, message = ''no parser''\<rparr>)
                     (Inl \<lparr>kind = ParseError, message = []\<rparr>)"
       and self' = "ADBProjectScraper_init 30 True ''hybrid''"
       and e' = "\<lparr>kind = OtherException, message = ''no parser''\<rparr>"
       and self1' = "(ADBProjectScraper_init 30 True ''hybrid'')
                       \<lparr>stats := init_stats(''cloudflare_bypassed'' \<mapsto> 1), page_fetches := 1\<rparr>"
       and include_details' = False and fuel' = 0 and acc' = "[]"]
  from t l i1 blocked_scrape_listing_page[of PROJECTS_URL "Inr ([], None)"
      "Inl \<lparr>kind = ParseError, message = []\<rparr>" "crawl_url None 1"]
  obtain self2 where c1: "scrape_projects_loop
        (canned_env (Inl (all_failed PROJECTS_URL)) (Inr challenge_response) (Inr ([], None))
           (Inl \<lparr>kind = ParseError, message = []\<rparr>))
        None False (Suc 0) 1 0 None (ADBProjectScraper_init 30 True ''hybrid'') [] =
        Some ([], None, self2)"
    by blast
  from t l i2 s2
  have c2: "scrape_projects_loop
     (canned_env (Inr (''<html></html>'', 200)) (Inr page_response)
        (Inl \<lparr>kind = OtherException, message = ''no parser''\<rparr>)
        (Inl \<lparr>kind = ParseError, message = []\<rparr>))
     None False (Suc 0) 1 0 None (ADBProjectScraper_init 30 True ''hybrid'') [] =
   Some ([], Some \<lparr>kind = OtherException, message = ''no parser''\<rparr>,
         (ADBProjectScraper_init 30 True ''hybrid'')
           \<lparr>stats := init_stats(''cloudflare_bypassed'' \<mapsto> 1), page_fetches := 1\<rparr>)"
    by blast
  from l i1 i2 c1 c2 show ?thesis by simp
qed

text \<open>
  C2 as stated fails: here the fetcher has exhausted its strategies (it raises the
  \<^verbatim>\<open>RuntimeError\<close>) and the standard request meets the challenge page, so
  \<^verbatim>\<open>_fetch_page\<close> raises \<^verbatim>\<open>CloudflareBlockError\<close> for the first listing page; the
  crawl, run to its end, yields nothing and ends without any exception.
\<close>

theorem crawl_swallows_block_counterexample:
  "fst (fetch_page
          (canned_env (Inl (all_failed PROJECTS_URL)) (Inr challenge_response) (Inr ([], None))
             (Inl \<lparr>kind = ParseError, message = []\<rparr>))
          PROJECTS_URL (ADBProjectScraper_init 30 True ''hybrid'')) =
     Inl \<lparr>kind = CloudflareBlockError, message = ''Request blocked by Cloudflare protection''\<rparr> \<and>
   scrape_projects
     (canned_env (Inl (all_failed PROJECTS_URL)) (Inr challenge_response) (Inr ([], None))
        (Inl \<lparr>kind = ParseError, message = []\<rparr>))
     (ADBProjectScraper_init 30 True ''hybrid'') None False 1 1 =
   Some ([], None,
         (ADBProjectScraper_init 30 True ''hybrid'')
           \<lparr>stats := init_stats(''errors'' \<mapsto> 1), page_fetches := 1\<rparr>)"
  using blocked_scrape_listing_page[of PROJECTS_URL "Inr ([], None)"
      "Inl \<lparr>kind = ParseError, message = []\<rparr>" PROJECTS_URL]
  by (simp add: blocked_fetch_page scrape_projects_def limit_reached_def crawl_url_def
      crawl_except_def exc_simps)








end
